theory Spec2Isabelle
  imports Main "HOL-Library.Word"
begin

section \<open>The host runtime and the crypto library, as crypto.c sees them\<close>

text \<open>
  crypto.c is the N-API binding of the streaming hash and HMAC engines. Every
  function of the file is embedded below as a function from the environment before
  the call to the returned value (\<open>None\<close> is the C \<open>NULL\<close>) and the environment
  after it. The host runtime (N-API), module.c and the libraries aws-c-common and
  aws-c-cal are not part of crypto.c; what the binding needs of them is modelled in
  this section.
\<close>

type_synonym byte = "8 word"

text \<open>
  A JavaScript value handed across the boundary. \<open>JNumber\<close> carries an
  integral number; \<open>JString\<close> carries the UTF-8 bytes of a string;
  \<open>JExternal p\<close> wraps the native pointer \<open>p\<close>; \<open>JDataView\<close> is a view of an
  array buffer with the bytes it shows.
\<close>

datatype napi_value =
    JUndefined
  | JNull
  | JNumber int
  | JString "byte list"
  | JArrayBuffer "byte list"
  | JExternal nat
  | JDataView "byte list"
  | JOther

datatype aws_error = AWS_ERROR_INVALID_STATE

datatype js_exception =
    JsError string
  | JsTypeError string
  | JsAwsError aws_error

datatype algorithm = MD5 | SHA256 | SHA256_HMAC

datatype ctx_state = ACTIVE | FINALIZED | DESTROYED

text \<open>
  \<open>struct aws_hash\<close> and \<open>struct aws_hmac\<close>: the binding reads only
  \<open>digest_size\<close>; the other fields belong to the library.
\<close>

record aws_hash =
  algorithm :: algorithm
  digest_size :: nat
  state :: ctx_state
  secret :: "byte list"
  accumulator :: "byte list"

type_synonym aws_hmac = aws_hash

record aws_byte_buf =
  buffer :: nat
  len :: nat
  capacity :: nat

datatype finalizer = S_hash_finalize | S_hmac_finalize

text \<open>
  The environment of a call: the pending JavaScript exception, the native contexts
  by address, the live externals with their registered finalizers, the contents of
  byte-buffer memory by address (kept when the memory is released, as the allocator
  does not touch it), the addresses handed back to the allocator, the next fresh
  address, and the addresses the destroy routine has run on, most recent first.
\<close>

record napi_env =
  exception :: "js_exception option"
  heap :: "nat \<rightharpoonup> aws_hash"
  externals :: "nat \<rightharpoonup> finalizer"
  memory :: "nat \<Rightarrow> byte list"
  released :: "nat list"
  next_ptr :: nat
  destroyed :: "nat list"

text \<open>What the platform refuses during one call.\<close>

record faults =
  cb_info_fails :: bool
  alloc_fails :: bool
  create_external_fails :: bool
  create_arraybuffer_fails :: bool
  create_dataview_fails :: bool

definition no_faults :: faults where
  "no_faults = \<lparr>cb_info_fails = False, alloc_fails = False, create_external_fails = False,
     create_arraybuffer_fails = False, create_dataview_fails = False\<rparr>"

definition init_env :: napi_env where
  "init_env = \<lparr>exception = None, heap = Map.empty, externals = Map.empty,
     memory = (\<lambda>_. []), released = [], next_ptr = 0, destroyed = []\<rparr>"

subsection \<open>N-API\<close>

definition napi_throw_error :: "napi_env \<Rightarrow> string \<Rightarrow> napi_env" where
  "napi_throw_error env msg = env\<lparr>exception := Some (JsError msg)\<rparr>"

definition napi_throw_type_error :: "napi_env \<Rightarrow> string \<Rightarrow> napi_env" where
  "napi_throw_type_error env msg = env\<lparr>exception := Some (JsTypeError msg)\<rparr>"

text \<open>
  \<open>napi_get_cb_info\<close> with an argument array of \<open>n\<close> slots: the number of
  arguments the caller passed, and the slots, filled with \<open>undefined\<close> where the
  caller passed fewer.
\<close>

definition napi_get_cb_info :: "faults \<Rightarrow> napi_value list \<Rightarrow> nat \<Rightarrow> (nat \<times> napi_value list) option" where
  "napi_get_cb_info F info n =
     (if cb_info_fails F then None
      else Some (length info, take n info @ replicate (n - length info) JUndefined))"

text \<open>
  \<open>napi_get_value_external\<close> succeeds on an external of this environment: one
  made by \<open>napi_create_external\<close> and not yet reclaimed. Such an external wraps
  the address of an allocated context.
\<close>

definition napi_get_value_external :: "napi_env \<Rightarrow> napi_value \<Rightarrow> nat option" where
  "napi_get_value_external env v =
     (case v of
        JExternal p \<Rightarrow> if externals env p \<noteq> None \<and> heap env p \<noteq> None then Some p else None
      | _ \<Rightarrow> None)"

text \<open>\<open>napi_get_value_uint32\<close>: a number converts modulo \<open>2^32\<close>; anything else
  is refused (\<open>napi_number_expected\<close>).\<close>

definition napi_get_value_uint32 :: "napi_value \<Rightarrow> 32 word option" where
  "napi_get_value_uint32 v = (case v of JNumber n \<Rightarrow> Some (word_of_int n) | _ \<Rightarrow> None)"

definition napi_create_external :: "faults \<Rightarrow> napi_env \<Rightarrow> nat \<Rightarrow> finalizer \<Rightarrow> (napi_value \<times> napi_env) option" where
  "napi_create_external F env p fin =
     (if create_external_fails F then None
      else Some (JExternal p, env\<lparr>externals := (externals env)(p \<mapsto> fin)\<rparr>))"

subsection \<open>module.c\<close>

text \<open>
  Modelled from the spec: module.c (\<open>aws_napi_is_null_or_undefined\<close>,
  \<open>aws_byte_buf_init_from_napi\<close>, \<open>aws_napi_throw_last_error\<close>) is not among the
  sources. An absent argument is \<open>null\<close> or \<open>undefined\<close>; the secret and the data
  are carried from the caller in a transient buffer that holds their bytes; an
  error of the library is raised to the caller as an exception identifying its kind.
\<close>

definition aws_napi_is_null_or_undefined :: "napi_value \<Rightarrow> bool" where
  "aws_napi_is_null_or_undefined v = (case v of JUndefined \<Rightarrow> True | JNull \<Rightarrow> True | _ \<Rightarrow> False)"

definition aws_byte_buf_init :: "napi_env \<Rightarrow> byte list \<Rightarrow> aws_byte_buf \<times> napi_env" where
  "aws_byte_buf_init env bs =
     (\<lparr>buffer = next_ptr env, len = length bs, capacity = length bs\<rparr>,
      env\<lparr>memory := (memory env)(next_ptr env := bs), next_ptr := Suc (next_ptr env)\<rparr>)"

definition aws_byte_buf_init_from_napi :: "napi_env \<Rightarrow> napi_value \<Rightarrow> (aws_byte_buf \<times> napi_env) option" where
  "aws_byte_buf_init_from_napi env v =
     (case v of
        JString bs \<Rightarrow> Some (aws_byte_buf_init env bs)
      | JArrayBuffer bs \<Rightarrow> Some (aws_byte_buf_init env bs)
      | _ \<Rightarrow> None)"

definition aws_napi_throw_last_error :: "napi_env \<Rightarrow> aws_error \<Rightarrow> napi_env" where
  "aws_napi_throw_last_error env e = env\<lparr>exception := Some (JsAwsError e)\<rparr>"

subsection \<open>aws-c-common: byte buffers\<close>

text \<open>
  Modelled from the spec: the byte-buffer primitives of aws-c-common are not among
  the sources. Secure erasure overwrites the memory before it is released; plain
  clean-up only releases it.
\<close>

definition aws_byte_cursor_from_buf :: "napi_env \<Rightarrow> aws_byte_buf \<Rightarrow> byte list" where
  "aws_byte_cursor_from_buf env buf = take (len buf) (memory env (buffer buf))"

definition aws_byte_buf_clean_up :: "napi_env \<Rightarrow> aws_byte_buf \<Rightarrow> napi_env" where
  "aws_byte_buf_clean_up env buf = env\<lparr>released := buffer buf # released env\<rparr>"

definition aws_byte_buf_clean_up_secure :: "napi_env \<Rightarrow> aws_byte_buf \<Rightarrow> napi_env" where
  "aws_byte_buf_clean_up_secure env buf =
     aws_byte_buf_clean_up
       (env\<lparr>memory := (memory env)(buffer buf := replicate (capacity buf) 0)\<rparr>) buf"

subsection \<open>aws-c-cal: the hash and HMAC engines\<close>

text \<open>
  Modelled from the spec: aws-c-cal is not among the sources. A context is created
  \<open>ACTIVE\<close> with the natural digest size of its algorithm (16 bytes for MD5, 32 for
  SHA-256); \<open>update\<close> is valid only in state \<open>ACTIVE\<close> and appends to the running
  computation; \<open>finalize\<close> is valid only in state \<open>ACTIVE\<close>, moves to
  \<open>FINALIZED\<close> and emits the leading \<open>min n truncate_to\<close> bytes of the natural
  digest; \<open>destroy\<close> moves to \<open>DESTROYED\<close> from any state and releases the
  accumulator and the secret. Out of state both fail with an invalid-state error.
  The algorithms themselves are a parameter \<open>D\<close>: the natural digest of a message
  under an algorithm and a key.
\<close>

type_synonym digest_fn = "algorithm \<Rightarrow> byte list \<Rightarrow> byte list \<Rightarrow> byte list"

definition AWS_MD5_LEN :: nat where
  "AWS_MD5_LEN = 16"

definition AWS_SHA256_LEN :: nat where
  "AWS_SHA256_LEN = 32"

definition AWS_SHA256_HMAC_LEN :: nat where
  "AWS_SHA256_HMAC_LEN = 32"

definition aws_new :: "faults \<Rightarrow> napi_env \<Rightarrow> aws_hash \<Rightarrow> (nat \<times> napi_env) option" where
  "aws_new F env h =
     (if alloc_fails F then None
      else Some (next_ptr env,
                 env\<lparr>heap := (heap env)(next_ptr env \<mapsto> h), next_ptr := Suc (next_ptr env)\<rparr>))"

definition aws_md5_new :: "faults \<Rightarrow> napi_env \<Rightarrow> (nat \<times> napi_env) option" where
  "aws_md5_new F env =
     aws_new F env \<lparr>algorithm = MD5, digest_size = AWS_MD5_LEN, state = ACTIVE,
       secret = [], accumulator = []\<rparr>"

definition aws_sha256_new :: "faults \<Rightarrow> napi_env \<Rightarrow> (nat \<times> napi_env) option" where
  "aws_sha256_new F env =
     aws_new F env \<lparr>algorithm = SHA256, digest_size = AWS_SHA256_LEN, state = ACTIVE,
       secret = [], accumulator = []\<rparr>"

definition aws_sha256_hmac_new :: "faults \<Rightarrow> napi_env \<Rightarrow> byte list \<Rightarrow> (nat \<times> napi_env) option" where
  "aws_sha256_hmac_new F env secret_cur =
     aws_new F env \<lparr>algorithm = SHA256_HMAC, digest_size = AWS_SHA256_HMAC_LEN, state = ACTIVE,
       secret = secret_cur, accumulator = []\<rparr>"

definition aws_hash_update :: "aws_hash \<Rightarrow> byte list \<Rightarrow> aws_error + aws_hash" where
  "aws_hash_update h to_hash =
     (if state h = ACTIVE then Inr (h\<lparr>accumulator := accumulator h @ to_hash\<rparr>)
      else Inl AWS_ERROR_INVALID_STATE)"

definition aws_hmac_update :: "aws_hmac \<Rightarrow> byte list \<Rightarrow> aws_error + aws_hmac" where
  "aws_hmac_update h to_hmac =
     (if state h = ACTIVE then Inr (h\<lparr>accumulator := accumulator h @ to_hmac\<rparr>)
      else Inl AWS_ERROR_INVALID_STATE)"

definition natural_digest :: "digest_fn \<Rightarrow> aws_hash \<Rightarrow> byte list" where
  "natural_digest D h = D (algorithm h) (secret h) (accumulator h)"

definition aws_hash_finalize :: "digest_fn \<Rightarrow> aws_hash \<Rightarrow> nat \<Rightarrow> aws_error + (byte list \<times> aws_hash)" where
  "aws_hash_finalize D h truncate_to =
     (if state h = ACTIVE
      then Inr (take (min (digest_size h) truncate_to) (natural_digest D h), h\<lparr>state := FINALIZED\<rparr>)
      else Inl AWS_ERROR_INVALID_STATE)"

definition aws_hmac_finalize :: "digest_fn \<Rightarrow> aws_hmac \<Rightarrow> nat \<Rightarrow> aws_error + (byte list \<times> aws_hmac)" where
  "aws_hmac_finalize D h truncate_to =
     (if state h = ACTIVE
      then Inr (take (min (digest_size h) truncate_to) (natural_digest D h), h\<lparr>state := FINALIZED\<rparr>)
      else Inl AWS_ERROR_INVALID_STATE)"

definition released_ctx :: "aws_hash \<Rightarrow> aws_hash" where
  "released_ctx h = h\<lparr>state := DESTROYED, secret := [], accumulator := []\<rparr>"

definition aws_hash_destroy :: "napi_env \<Rightarrow> nat \<Rightarrow> napi_env" where
  "aws_hash_destroy env p =
     env\<lparr>heap := (heap env)(p := map_option released_ctx (heap env p)),
         destroyed := p # destroyed env\<rparr>"

definition aws_hmac_destroy :: "napi_env \<Rightarrow> nat \<Rightarrow> napi_env" where
  "aws_hmac_destroy env p =
     env\<lparr>heap := (heap env)(p := map_option released_ctx (heap env p)),
         destroyed := p # destroyed env\<rparr>"

text \<open>
  \<open>aws_byte_buf_from_empty_array\<close> over the fresh, zero-filled array buffer, after
  the library wrote \<open>written\<close> at its start: the bytes the data view shows.
\<close>

definition out_buf_contents :: "nat \<Rightarrow> byte list \<Rightarrow> byte list" where
  "out_buf_contents digest_size' written =
     take digest_size' written @ replicate (digest_size' - length written) 0"

section \<open>crypto.c\<close>

subsection \<open>Hash\<close>

definition s_hash_finalize :: "napi_env \<Rightarrow> nat \<Rightarrow> napi_env" where
  "s_hash_finalize env finalize_data = aws_hash_destroy env finalize_data"

definition hash_md5_new :: "faults \<Rightarrow> napi_env \<Rightarrow> napi_value list \<Rightarrow> napi_value option \<times> napi_env" where
  "hash_md5_new F env info =
     (case aws_md5_new F env of
        None \<Rightarrow> (None, env)
      | Some (hash, env1) \<Rightarrow>
          (case napi_create_external F env1 hash S_hash_finalize of
             None \<Rightarrow> (None, napi_throw_error env1 ''Failed create n-api external'')
           | Some (node_external, env2) \<Rightarrow> (Some node_external, env2)))"

definition hash_sha256_new :: "faults \<Rightarrow> napi_env \<Rightarrow> napi_value list \<Rightarrow> napi_value option \<times> napi_env" where
  "hash_sha256_new F env info =
     (case aws_sha256_new F env of
        None \<Rightarrow> (None, env)
      | Some (hash, env1) \<Rightarrow>
          (case napi_create_external F env1 hash S_hash_finalize of
             None \<Rightarrow> (None, napi_throw_error env1 ''Failed create n-api external'')
           | Some (node_external, env2) \<Rightarrow> (Some node_external, env2)))"

definition hash_update :: "faults \<Rightarrow> napi_env \<Rightarrow> napi_value list \<Rightarrow> napi_value option \<times> napi_env" where
  "hash_update F env info =
     (case napi_get_cb_info F info 2 of
        None \<Rightarrow> (None, napi_throw_error env ''Failed to retreive callback information'')
      | Some (num_args, node_args) \<Rightarrow>
          if num_args \<noteq> 2
          then (None, napi_throw_error env ''hash_update needs exactly 2 arguments'')
          else
            (case napi_get_value_external env (node_args ! 0) of
               None \<Rightarrow> (None, napi_throw_error env ''Failed to extract hash from first argument'')
             | Some hash \<Rightarrow>
                 (case aws_byte_buf_init_from_napi env (node_args ! 1) of
                    None \<Rightarrow>
                      (None, napi_throw_type_error env ''to_hash argument must be a string or array'')
                  | Some (to_hash, env1) \<Rightarrow>
                      (let to_hash_cur = aws_byte_cursor_from_buf env1 to_hash;
                           env2 = (case aws_hash_update (the (heap env1 hash)) to_hash_cur of
                                     Inl e \<Rightarrow> aws_napi_throw_last_error env1 e
                                   | Inr h \<Rightarrow> env1\<lparr>heap := (heap env1)(hash \<mapsto> h)\<rparr>)
                       in (None, aws_byte_buf_clean_up env2 to_hash)))))"

text \<open>Lines 139 to 158 of \<open>hash_digest\<close>: the emission of \<open>digest_size'\<close> bytes.\<close>

definition hash_digest_emit :: "digest_fn \<Rightarrow> faults \<Rightarrow> napi_env \<Rightarrow> nat \<Rightarrow> nat \<Rightarrow> napi_value option \<times> napi_env" where
  "hash_digest_emit D F env hash digest_size' =
     (if create_arraybuffer_fails F
      then (None, napi_throw_error env ''Failed to create output arraybuffer'')
      else
        (case aws_hash_finalize D (the (heap env hash)) digest_size' of
           Inl e \<Rightarrow> (None, aws_napi_throw_last_error env e)
         | Inr (written, h) \<Rightarrow>
             (let env1 = env\<lparr>heap := (heap env)(hash \<mapsto> h)\<rparr>
              in if create_dataview_fails F
                 then (None, napi_throw_error env1 ''Failed to create output dataview'')
                 else (Some (JDataView (out_buf_contents digest_size' written)), env1))))"

definition hash_digest :: "digest_fn \<Rightarrow> faults \<Rightarrow> napi_env \<Rightarrow> napi_value list \<Rightarrow> napi_value option \<times> napi_env" where
  "hash_digest D F env info =
     (case napi_get_cb_info F info 2 of
        None \<Rightarrow> (None, napi_throw_error env ''Failed to retreive callback information'')
      | Some (num_args, node_args) \<Rightarrow>
          if num_args \<noteq> 2
          then (None, napi_throw_error env ''hash_digest needs exactly 2 arguments'')
          else
            (case napi_get_value_external env (node_args ! 0) of
               None \<Rightarrow> (None, napi_throw_error env ''Failed to extract hash from first argument'')
             | Some hash \<Rightarrow>
                 (let digest_size' = digest_size (the (heap env hash))
                  in if \<not> aws_napi_is_null_or_undefined (node_args ! 1)
                     then
                       (case napi_get_value_uint32 (node_args ! 1) of
                          None \<Rightarrow>
                            (None, napi_throw_type_error env
                               ''truncate_to argument must be undefined or a positive number'')
                        | Some truncate_to \<Rightarrow>
                            hash_digest_emit D F env hash
                              (if digest_size' > unat truncate_to then unat truncate_to
                               else digest_size'))
                     else hash_digest_emit D F env hash digest_size')))"

subsection \<open>HMAC\<close>

definition s_hmac_finalize :: "napi_env \<Rightarrow> nat \<Rightarrow> napi_env" where
  "s_hmac_finalize env finalize_data = aws_hmac_destroy env finalize_data"

definition hmac_sha256_new :: "faults \<Rightarrow> napi_env \<Rightarrow> napi_value list \<Rightarrow> napi_value option \<times> napi_env" where
  "hmac_sha256_new F env info =
     (case napi_get_cb_info F info 1 of
        None \<Rightarrow> (None, napi_throw_error env ''Failed to retreive callback information'')
      | Some (num_args, node_args) \<Rightarrow>
          if num_args \<noteq> 1
          then (None, napi_throw_error env ''hmac_sha256_new needs exactly 1 argument'')
          else
            (case aws_byte_buf_init_from_napi env (node_args ! 0) of
               None \<Rightarrow>
                 (None, napi_throw_type_error env ''secret argument must be a string or array'')
             | Some (secret', env1) \<Rightarrow>
                 (let secret_cur = aws_byte_cursor_from_buf env1 secret'
                  in case aws_sha256_hmac_new F env1 secret_cur of
                       None \<Rightarrow> (None, aws_byte_buf_clean_up env1 secret')
                     | Some (hmac, env2) \<Rightarrow>
                         (case napi_create_external F env2 hmac S_hmac_finalize of
                            None \<Rightarrow>
                              (None,
                               aws_byte_buf_clean_up_secure
                                 (aws_hmac_destroy
                                    (napi_throw_error env2 ''Failed create n-api external'') hmac)
                                 secret')
                          | Some (node_external, env3) \<Rightarrow> (Some node_external, env3)))))"

definition hmac_update :: "faults \<Rightarrow> napi_env \<Rightarrow> napi_value list \<Rightarrow> napi_value option \<times> napi_env" where
  "hmac_update F env info =
     (case napi_get_cb_info F info 2 of
        None \<Rightarrow> (None, napi_throw_error env ''Failed to retreive callback information'')
      | Some (num_args, node_args) \<Rightarrow>
          if num_args \<noteq> 2
          then (None, napi_throw_error env ''hmac_update needs exactly 2 arguments'')
          else
            (case napi_get_value_external env (node_args ! 0) of
               None \<Rightarrow> (None, napi_throw_error env ''Failed to extract hmac from first argument'')
             | Some hmac \<Rightarrow>
                 (case aws_byte_buf_init_from_napi env (node_args ! 1) of
                    None \<Rightarrow>
                      (None, napi_throw_type_error env ''to_hmac argument must be a string or array'')
                  | Some (to_hash, env1) \<Rightarrow>
                      (let to_hash_cur = aws_byte_cursor_from_buf env1 to_hash;
                           env2 = (case aws_hmac_update (the (heap env1 hmac)) to_hash_cur of
                                     Inl e \<Rightarrow> aws_napi_throw_last_error env1 e
                                   | Inr h \<Rightarrow> env1\<lparr>heap := (heap env1)(hmac \<mapsto> h)\<rparr>)
                       in (None, aws_byte_buf_clean_up env2 to_hash)))))"

text \<open>Lines 284 to 303 of \<open>hmac_digest\<close>: the emission of \<open>digest_size'\<close> bytes.\<close>

definition hmac_digest_emit :: "digest_fn \<Rightarrow> faults \<Rightarrow> napi_env \<Rightarrow> nat \<Rightarrow> nat \<Rightarrow> napi_value option \<times> napi_env" where
  "hmac_digest_emit D F env hmac digest_size' =
     (if create_arraybuffer_fails F
      then (None, napi_throw_error env ''Failed to create output arraybuffer'')
      else
        (case aws_hmac_finalize D (the (heap env hmac)) digest_size' of
           Inl e \<Rightarrow> (None, aws_napi_throw_last_error env e)
         | Inr (written, h) \<Rightarrow>
             (let env1 = env\<lparr>heap := (heap env)(hmac \<mapsto> h)\<rparr>
              in if create_dataview_fails F
                 then (None, napi_throw_error env1 ''Failed to create output dataview'')
                 else (Some (JDataView (out_buf_contents digest_size' written)), env1))))"

definition hmac_digest :: "digest_fn \<Rightarrow> faults \<Rightarrow> napi_env \<Rightarrow> napi_value list \<Rightarrow> napi_value option \<times> napi_env" where
  "hmac_digest D F env info =
     (case napi_get_cb_info F info 2 of
        None \<Rightarrow> (None, napi_throw_error env ''Failed to retreive callback information'')
      | Some (num_args, node_args) \<Rightarrow>
          if num_args \<noteq> 2
          then (None, napi_throw_error env ''hmac_digest needs exactly 2 arguments'')
          else
            (case napi_get_value_external env (node_args ! 0) of
               None \<Rightarrow> (None, napi_throw_error env ''Failed to extract hmac from first argument'')
             | Some hmac \<Rightarrow>
                 (let digest_size' = digest_size (the (heap env hmac))
                  in if aws_napi_is_null_or_undefined (node_args ! 1)
                     then
                       (case napi_get_value_uint32 (node_args ! 1) of
                          None \<Rightarrow>
                            (None, napi_throw_type_error env
                               ''truncate_to argument must be undefined or a positive number'')
                        | Some truncate_to \<Rightarrow>
                            hmac_digest_emit D F env hmac
                              (if digest_size' > unat truncate_to then unat truncate_to
                               else digest_size'))
                     else hmac_digest_emit D F env hmac digest_size')))"

section \<open>Runs of the binding under the collector of the host\<close>

text \<open>
  The host calls the exported functions in any order, each with a cleared pending
  exception, and reclaims live externals at times of its own choosing: reclaiming
  removes the external and runs the finalizer registered with it, once.
\<close>

datatype op =
    Hash_md5_new faults "napi_value list"
  | Hash_sha256_new faults "napi_value list"
  | Hash_update faults "napi_value list"
  | Hash_digest faults "napi_value list"
  | Hmac_sha256_new faults "napi_value list"
  | Hmac_update faults "napi_value list"
  | Hmac_digest faults "napi_value list"
  | Reclaim nat

definition run_finalizer :: "finalizer \<Rightarrow> napi_env \<Rightarrow> nat \<Rightarrow> napi_env" where
  "run_finalizer fin env p =
     (case fin of S_hash_finalize \<Rightarrow> s_hash_finalize env p | S_hmac_finalize \<Rightarrow> s_hmac_finalize env p)"

definition reclaim :: "napi_env \<Rightarrow> nat \<Rightarrow> napi_env" where
  "reclaim env p =
     (case externals env p of
        None \<Rightarrow> env
      | Some fin \<Rightarrow> run_finalizer fin (env\<lparr>externals := (externals env)(p := None)\<rparr>) p)"

definition cleared :: "napi_env \<Rightarrow> napi_env" where
  "cleared env = env\<lparr>exception := None\<rparr>"

fun step :: "digest_fn \<Rightarrow> napi_env \<Rightarrow> op \<Rightarrow> napi_env" where
  "step D env (Hash_md5_new F info) = snd (hash_md5_new F (cleared env) info)"
| "step D env (Hash_sha256_new F info) = snd (hash_sha256_new F (cleared env) info)"
| "step D env (Hash_update F info) = snd (hash_update F (cleared env) info)"
| "step D env (Hash_digest F info) = snd (hash_digest D F (cleared env) info)"
| "step D env (Hmac_sha256_new F info) = snd (hmac_sha256_new F (cleared env) info)"
| "step D env (Hmac_update F info) = snd (hmac_update F (cleared env) info)"
| "step D env (Hmac_digest F info) = snd (hmac_digest D F (cleared env) info)"
| "step D env (Reclaim p) = reclaim env p"

definition run :: "digest_fn \<Rightarrow> napi_env \<Rightarrow> op list \<Rightarrow> napi_env" where
  "run D env ops = foldl (step D) env ops"

text \<open>A stand-in for the algorithms, for evaluating the binding on concrete calls.\<close>

definition toy_digest :: digest_fn where
  "toy_digest a k m =
     replicate (case a of MD5 \<Rightarrow> 16 | SHA256 \<Rightarrow> 32 | SHA256_HMAC \<Rightarrow> 32)
       (sum_list k + sum_list m)"

text \<open>The byte sequence a string or an array buffer carries across the boundary.\<close>

definition carries :: "napi_value \<Rightarrow> byte list \<Rightarrow> bool" where
  "carries v bs = (v = JString bs \<or> v = JArrayBuffer bs)"

text \<open>
  Environments reached by concrete calls: after a successful \<open>hmac_sha256_new\<close>
  with the secret \<open>[1, 2, 3]\<close>, after a successful \<open>hash_md5_new\<close>, after a
  first \<open>hash_digest\<close> on the latter, and after a first \<open>hmac_digest\<close> (with a
  request for 32 bytes) on the former.
\<close>

definition hmac_env :: napi_env where
  "hmac_env = snd (hmac_sha256_new no_faults init_env [JString [1, 2, 3]])"

definition md5_env :: napi_env where
  "md5_env = snd (hash_md5_new no_faults init_env [])"

definition finalized_env :: napi_env where
  "finalized_env = snd (hash_digest toy_digest no_faults md5_env [JExternal 0, JUndefined])"

definition hmac_finalized_env :: napi_env where
  "hmac_finalized_env = snd (hmac_digest toy_digest no_faults hmac_env [JExternal 1, JNumber 32])"



text \<open>
  The invariant of a run: no address was destroyed twice, nothing at or above the
  next fresh address is registered or destroyed, and no destroyed address is still
  registered with the collector.
\<close>

definition wf_env :: "napi_env \<Rightarrow> bool" where
  "wf_env env =
     (distinct (destroyed env) \<and>
      (\<forall>p. next_ptr env \<le> p \<longrightarrow> externals env p = None \<and> p \<notin> set (destroyed env)) \<and>
      (\<forall>p \<in> set (destroyed env). externals env p = None))"

text \<open>
  A context the host cannot reach: allocated, with no external registered for it,
  and not destroyed.
\<close>

definition unreachable :: "napi_env \<Rightarrow> nat \<Rightarrow> bool" where
  "unreachable env p =
     (p < next_ptr env \<and> externals env p = None \<and> p \<notin> set (destroyed env))"

section \<open>Evaluation of the platform and of single calls\<close>

lemmas platform_defs =
  no_faults_def init_env_def napi_throw_error_def napi_throw_type_error_def
  napi_get_cb_info_def napi_get_value_external_def napi_get_value_uint32_def
  napi_create_external_def aws_napi_is_null_or_undefined_def aws_byte_buf_init_def
  aws_byte_buf_init_from_napi_def aws_napi_throw_last_error_def
  aws_byte_cursor_from_buf_def aws_byte_buf_clean_up_def aws_byte_buf_clean_up_secure_def
  AWS_MD5_LEN_def AWS_SHA256_LEN_def AWS_SHA256_HMAC_LEN_def aws_new_def aws_md5_new_def
  aws_sha256_new_def aws_sha256_hmac_new_def aws_hash_update_def aws_hmac_update_def
  natural_digest_def aws_hash_finalize_def aws_hmac_finalize_def released_ctx_def
  aws_hash_destroy_def aws_hmac_destroy_def out_buf_contents_def

lemma hmac_env_eq:
  "hmac_env = \<lparr>exception = None,
     heap = [1 \<mapsto> \<lparr>algorithm = SHA256_HMAC, digest_size = 32, state = ACTIVE,
                    secret = [1, 2, 3], accumulator = []\<rparr>],
     externals = [1 \<mapsto> S_hmac_finalize],
     memory = (\<lambda>_. [])(0 := [1, 2, 3]), released = [], next_ptr = 2, destroyed = []\<rparr>"
  by (simp add: hmac_env_def hmac_sha256_new_def platform_defs numeral_2_eq_2)

lemma md5_env_eq:
  "md5_env = \<lparr>exception = None,
     heap = [0 \<mapsto> \<lparr>algorithm = MD5, digest_size = 16, state = ACTIVE,
                    secret = [], accumulator = []\<rparr>],
     externals = [0 \<mapsto> S_hash_finalize],
     memory = (\<lambda>_. []), released = [], next_ptr = 1, destroyed = []\<rparr>"
  by (simp add: md5_env_def hash_md5_new_def platform_defs)

lemma finalized_env_eq:
  "finalized_env = \<lparr>exception = None,
     heap = [0 \<mapsto> \<lparr>algorithm = MD5, digest_size = 16, state = FINALIZED,
                    secret = [], accumulator = []\<rparr>],
     externals = [0 \<mapsto> S_hash_finalize],
     memory = (\<lambda>_. []), released = [], next_ptr = 1, destroyed = []\<rparr>"
  by (simp add: finalized_env_def md5_env_eq hash_digest_def hash_digest_emit_def platform_defs)

lemma hmac_finalized_env_eq:
  "hmac_finalized_env = \<lparr>exception = None,
     heap = [1 \<mapsto> \<lparr>algorithm = SHA256_HMAC, digest_size = 32, state = FINALIZED,
                    secret = [1, 2, 3], accumulator = []\<rparr>],
     externals = [1 \<mapsto> S_hmac_finalize],
     memory = (\<lambda>_. [])(0 := [1, 2, 3]), released = [], next_ptr = 2, destroyed = []\<rparr>"
  by (simp add: hmac_finalized_env_def hmac_env_eq hmac_digest_def hmac_digest_emit_def
      platform_defs)

lemma get_cb_info_2:
  "\<not> cb_info_fails F \<Longrightarrow> napi_get_cb_info F [h, v] 2 = Some (2, [h, v])"
  by (simp add: napi_get_cb_info_def)

lemma buf_init_carries:
  "carries v bs \<Longrightarrow> aws_byte_buf_init_from_napi env v = Some (aws_byte_buf_init env bs)"
  by (auto simp: carries_def aws_byte_buf_init_from_napi_def)

lemma length_out_buf_contents: "length (out_buf_contents n w) = n"
  by (simp add: out_buf_contents_def)

lemma ctx_of_external:
  "napi_get_value_external env h = Some p \<Longrightarrow> \<exists>c. heap env p = Some c"
  by (auto simp: napi_get_value_external_def split: napi_value.splits if_splits)

lemma external_preserved:
  assumes "napi_get_value_external env h = Some p" "externals env' = externals env"
    "heap env' p \<noteq> None"
  shows "napi_get_value_external env' h = Some p"
  using assms by (auto simp: napi_get_value_external_def split: napi_value.splits if_splits)

lemma get_value_external_cong:
  "heap env1 = heap env2 \<Longrightarrow> externals env1 = externals env2 \<Longrightarrow>
   napi_get_value_external env1 v = napi_get_value_external env2 v"
  by (simp add: napi_get_value_external_def split: napi_value.splits)

subsection \<open>update\<close>

lemma hash_update_heap:
  assumes "\<not> cb_info_fails F" "napi_get_value_external env h = Some p" "heap env p = Some c"
    "carries v bs"
  shows "heap (snd (hash_update F env [h, v])) =
           (if state c = ACTIVE then (heap env)(p \<mapsto> c\<lparr>accumulator := accumulator c @ bs\<rparr>)
            else heap env)"
    and "externals (snd (hash_update F env [h, v])) = externals env"
    and "fst (hash_update F env [h, v]) = None"
    and "state c \<noteq> ACTIVE \<Longrightarrow>
           exception (snd (hash_update F env [h, v])) = Some (JsAwsError AWS_ERROR_INVALID_STATE)"
  using assms
  by (simp_all add: hash_update_def get_cb_info_2 buf_init_carries Let_def split_beta
      aws_hash_update_def aws_napi_throw_last_error_def
      aws_byte_buf_clean_up_def aws_byte_buf_init_def aws_byte_cursor_from_buf_def)

lemma hmac_update_heap:
  assumes "\<not> cb_info_fails F" "napi_get_value_external env h = Some p" "heap env p = Some c"
    "carries v bs"
  shows "heap (snd (hmac_update F env [h, v])) =
           (if state c = ACTIVE then (heap env)(p \<mapsto> c\<lparr>accumulator := accumulator c @ bs\<rparr>)
            else heap env)"
    and "externals (snd (hmac_update F env [h, v])) = externals env"
    and "fst (hmac_update F env [h, v]) = None"
    and "state c \<noteq> ACTIVE \<Longrightarrow>
           exception (snd (hmac_update F env [h, v])) = Some (JsAwsError AWS_ERROR_INVALID_STATE)"
  using assms
  by (simp_all add: hmac_update_def get_cb_info_2 buf_init_carries Let_def split_beta
      aws_hmac_update_def aws_napi_throw_last_error_def
      aws_byte_buf_clean_up_def aws_byte_buf_init_def aws_byte_cursor_from_buf_def)



subsection \<open>digest\<close>

lemma hash_digest_emit_active:
  assumes "heap env p = Some c" "state c = ACTIVE"
    "\<not> create_arraybuffer_fails F" "\<not> create_dataview_fails F"
  shows "hash_digest_emit D F env p n =
     (Some (JDataView (out_buf_contents n (take (min (digest_size c) n) (natural_digest D c)))),
      env\<lparr>heap := (heap env)(p \<mapsto> c\<lparr>state := FINALIZED\<rparr>)\<rparr>)"
  using assms by (simp add: hash_digest_emit_def aws_hash_finalize_def)

lemma hmac_digest_emit_active:
  assumes "heap env p = Some c" "state c = ACTIVE"
    "\<not> create_arraybuffer_fails F" "\<not> create_dataview_fails F"
  shows "hmac_digest_emit D F env p n =
     (Some (JDataView (out_buf_contents n (take (min (digest_size c) n) (natural_digest D c)))),
      env\<lparr>heap := (heap env)(p \<mapsto> c\<lparr>state := FINALIZED\<rparr>)\<rparr>)"
  using assms by (simp add: hmac_digest_emit_def aws_hmac_finalize_def)

lemma hash_digest_emit_out_of_state:
  assumes "heap env p = Some c" "state c \<noteq> ACTIVE" "\<not> create_arraybuffer_fails F"
  shows "hash_digest_emit D F env p n =
     (None, env\<lparr>exception := Some (JsAwsError AWS_ERROR_INVALID_STATE)\<rparr>)"
  using assms
  by (simp add: hash_digest_emit_def aws_hash_finalize_def aws_napi_throw_last_error_def)

lemma hmac_digest_emit_out_of_state:
  assumes "heap env p = Some c" "state c \<noteq> ACTIVE" "\<not> create_arraybuffer_fails F"
  shows "hmac_digest_emit D F env p n =
     (None, env\<lparr>exception := Some (JsAwsError AWS_ERROR_INVALID_STATE)\<rparr>)"
  using assms
  by (simp add: hmac_digest_emit_def aws_hmac_finalize_def aws_napi_throw_last_error_def)

lemma hmac_digest_emit_size:
  "fst (hmac_digest_emit D F env p n) = Some d \<Longrightarrow> \<exists>bs. d = JDataView bs \<and> length bs = n"
  by (auto simp: hmac_digest_emit_def Let_def length_out_buf_contents
      split: if_splits sum.splits)

lemma hash_digest_emit_fst_cong:
  "heap env1 = heap env2 \<Longrightarrow>
   fst (hash_digest_emit D F env1 p n) = fst (hash_digest_emit D F env2 p n)"
  by (simp add: hash_digest_emit_def Let_def split: sum.splits)

lemma hmac_digest_emit_fst_cong:
  "heap env1 = heap env2 \<Longrightarrow>
   fst (hmac_digest_emit D F env1 p n) = fst (hmac_digest_emit D F env2 p n)"
  by (simp add: hmac_digest_emit_def Let_def split: sum.splits)

lemma hash_digest_fst_cong:
  assumes "heap env1 = heap env2" "externals env1 = externals env2"
  shows "fst (hash_digest D F env1 info) = fst (hash_digest D F env2 info)"
  using hash_digest_emit_fst_cong [OF assms(1)] get_value_external_cong [OF assms]
  by (simp add: hash_digest_def Let_def assms(1) split: option.splits)

lemma hmac_digest_fst_cong:
  assumes "heap env1 = heap env2" "externals env1 = externals env2"
  shows "fst (hmac_digest D F env1 info) = fst (hmac_digest D F env2 info)"
  using hmac_digest_emit_fst_cong [OF assms(1)] get_value_external_cong [OF assms]
  by (simp add: hmac_digest_def Let_def assms(1) split: option.splits)

lemma hash_digest_absent_branch:
  assumes "\<not> cb_info_fails F" "napi_get_value_external env h = Some p" "heap env p = Some c"
    "aws_napi_is_null_or_undefined t"
  shows "hash_digest D F env [h, t] = hash_digest_emit D F env p (digest_size c)"
  using assms by (simp add: hash_digest_def get_cb_info_2)

lemma hash_digest_provided_branch:
  assumes "\<not> cb_info_fails F" "napi_get_value_external env h = Some p" "heap env p = Some c"
  shows "hash_digest D F env [h, JNumber k] =
     hash_digest_emit D F env p (min (digest_size c) (unat (word_of_int k :: 32 word)))"
  using assms
  by (simp add: hash_digest_def get_cb_info_2 aws_napi_is_null_or_undefined_def
      napi_get_value_uint32_def min_def)

lemma hmac_digest_provided_branch:
  assumes "\<not> cb_info_fails F" "napi_get_value_external env h = Some p" "heap env p = Some c"
    "\<not> aws_napi_is_null_or_undefined v"
  shows "hmac_digest D F env [h, v] = hmac_digest_emit D F env p (digest_size c)"
  using assms by (simp add: hmac_digest_def get_cb_info_2)

text \<open>
  The unkeyed engine honours the truncation contract: an absent \<open>truncate_to\<close>
  emits the natural digest, a provided one its leading \<open>min n k\<close> bytes.
\<close>

lemma hash_digest_truncates:
  assumes "\<not> cb_info_fails F" "\<not> create_arraybuffer_fails F" "\<not> create_dataview_fails F"
    "napi_get_value_external env h = Some p" "heap env p = Some c" "state c = ACTIVE"
    "length (natural_digest D c) = digest_size c"
  shows "fst (hash_digest D F env [h, JNumber k]) =
           Some (JDataView (take (min (digest_size c) (unat (word_of_int k :: 32 word)))
                   (natural_digest D c)))"
    and "aws_napi_is_null_or_undefined t \<Longrightarrow>
         fst (hash_digest D F env [h, t]) = Some (JDataView (natural_digest D c))"
  using assms
  by (simp_all add: hash_digest_provided_branch hash_digest_absent_branch hash_digest_emit_active
      out_buf_contents_def)



text \<open>
  The keyed engine refuses an absent \<open>truncate_to\<close> on every live handle: the test
  of line 271 sends \<open>null\<close> and \<open>undefined\<close> into the conversion to a number.
\<close>

lemma hmac_digest_absent_branch:
  assumes "\<not> cb_info_fails F" "napi_get_value_external env h = Some p"
    "aws_napi_is_null_or_undefined t"
  shows "hmac_digest D F env [h, t] =
     (None, env\<lparr>exception := Some (JsTypeError
        ''truncate_to argument must be undefined or a positive number'')\<rparr>)"
  using assms
  by (auto simp: hmac_digest_def get_cb_info_2 aws_napi_is_null_or_undefined_def
      napi_get_value_uint32_def napi_throw_type_error_def split: napi_value.splits)

subsection \<open>create\<close>

text \<open>
  Of the three exits of \<open>hmac_sha256_new\<close> past the marshalling of the secret,
  only the failed registration erases the transient buffer and destroys the context.
\<close>

lemma hmac_sha256_new_registration_failure_cleans_up:
  "memory (snd (hmac_sha256_new (no_faults\<lparr>create_external_fails := True\<rparr>) env [JString bs]))
     (next_ptr env) = replicate (length bs) 0 \<and>
   destroyed (snd (hmac_sha256_new (no_faults\<lparr>create_external_fails := True\<rparr>) env [JString bs]))
     = Suc (next_ptr env) # destroyed env"
  by (simp add: hmac_sha256_new_def platform_defs)

lemma hmac_sha256_new_success_keeps_secret:
  "memory (snd (hmac_sha256_new no_faults env [JString bs])) (next_ptr env) = bs \<and>
   released (snd (hmac_sha256_new no_faults env [JString bs])) = released env"
  by (simp add: hmac_sha256_new_def platform_defs)

lemma hmac_sha256_new_construction_failure_keeps_secret:
  "memory (snd (hmac_sha256_new (no_faults\<lparr>alloc_fails := True\<rparr>) env [JString bs]))
     (next_ptr env) = bs \<and>
   released (snd (hmac_sha256_new (no_faults\<lparr>alloc_fails := True\<rparr>) env [JString bs]))
     = next_ptr env # released env"
  by (simp add: hmac_sha256_new_def platform_defs)

section \<open>The invariant of runs\<close>

lemma wf_init: "wf_env init_env"
  by (simp add: wf_env_def init_env_def)

lemma wf_updates [simp]:
  "wf_env (env\<lparr>exception := e\<rparr>) = wf_env env"
  "wf_env (env\<lparr>heap := hp\<rparr>) = wf_env env"
  "wf_env (env\<lparr>memory := m\<rparr>) = wf_env env"
  "wf_env (env\<lparr>released := r\<rparr>) = wf_env env"
  by (simp_all add: wf_env_def)

lemma wf_frame:
  assumes "wf_env env" "destroyed env' = destroyed env" "externals env' = externals env"
    "next_ptr env \<le> next_ptr env'"
  shows "wf_env env'"
  using assms unfolding wf_env_def by (metis le_trans)

lemma wf_cleared: "wf_env env \<Longrightarrow> wf_env (cleared env)"
  by (simp add: cleared_def)

lemma wf_register:
  assumes "wf_env env" "p < next_ptr env" "p \<notin> set (destroyed env)"
  shows "wf_env (env\<lparr>externals := (externals env)(p \<mapsto> fin)\<rparr>)"
  using assms unfolding wf_env_def by auto

lemma wf_destroy:
  assumes "wf_env env" "externals env p = None" "p \<notin> set (destroyed env)" "p < next_ptr env"
  shows "wf_env (env\<lparr>destroyed := p # destroyed env\<rparr>)"
  using assms unfolding wf_env_def by auto

lemma wf_fresh:
  assumes "wf_env env"
  shows "externals env (next_ptr env) = None" "next_ptr env \<notin> set (destroyed env)"
  using assms unfolding wf_env_def by auto

lemma wf_alloc_ctx:
  assumes "wf_env env"
  shows "wf_env (env\<lparr>heap := hp, next_ptr := Suc (next_ptr env)\<rparr>)"
  by (rule wf_frame [OF assms]) simp_all

lemma wf_buf_init:
  assumes "wf_env env" "aws_byte_buf_init_from_napi env v = Some (b, env1)"
  shows "wf_env env1"
proof -
  from assms(2) obtain bs where "aws_byte_buf_init env bs = (b, env1)"
    by (auto simp: aws_byte_buf_init_from_napi_def split: napi_value.splits)
  then have "destroyed env1 = destroyed env" "externals env1 = externals env"
    "next_ptr env \<le> next_ptr env1"
    by (auto simp: aws_byte_buf_init_def)
  with assms(1) show ?thesis by (rule wf_frame)
qed

text \<open>The tail of \<open>hash_md5_new\<close> and \<open>hash_sha256_new\<close> after the allocation.\<close>

lemma wf_hash_new:
  assumes "wf_env env" "aws_new F env c = Some (p, env1)"
  shows "wf_env (snd (case napi_create_external F env1 p S_hash_finalize of
             None \<Rightarrow> (None, napi_throw_error env1 msg)
           | Some (node_external, env2) \<Rightarrow> (Some node_external, env2)))"
proof -
  from assms(2) have p: "p = next_ptr env"
    and env1: "env1 = env\<lparr>heap := (heap env)(next_ptr env \<mapsto> c), next_ptr := Suc (next_ptr env)\<rparr>"
    by (auto simp: aws_new_def split: if_splits)
  have i1: "wf_env env1" unfolding env1 by (rule wf_alloc_ctx [OF assms(1)])
  show ?thesis
  proof (cases "create_external_fails F")
    case True
    then show ?thesis
      using i1 by (simp add: napi_create_external_def napi_throw_error_def)
  next
    case False
    have "wf_env (env1\<lparr>externals := (externals env1)(p \<mapsto> S_hash_finalize)\<rparr>)"
      by (rule wf_register [OF i1]) (simp_all add: env1 p wf_fresh [OF assms(1)])
    with False show ?thesis by (simp add: napi_create_external_def)
  qed
qed

lemma wf_hash_md5_new: "wf_env env \<Longrightarrow> wf_env (snd (hash_md5_new F env info))"
  unfolding hash_md5_new_def aws_md5_new_def
  by (auto simp del: snd_conv simp add: wf_hash_new split: option.splits) simp

lemma wf_hash_sha256_new: "wf_env env \<Longrightarrow> wf_env (snd (hash_sha256_new F env info))"
  unfolding hash_sha256_new_def aws_sha256_new_def
  by (auto simp del: snd_conv simp add: wf_hash_new split: option.splits) simp

text \<open>The tail of \<open>hmac_sha256_new\<close> after the allocation, with its clean-up path.\<close>

lemma wf_hmac_new:
  assumes "wf_env env1" "aws_new F env1 c = Some (p, env2)"
  shows "wf_env (snd (case napi_create_external F env2 p S_hmac_finalize of
             None \<Rightarrow>
               (None, aws_byte_buf_clean_up_secure
                        (aws_hmac_destroy (napi_throw_error env2 msg) p) b)
           | Some (node_external, env3) \<Rightarrow> (Some node_external, env3)))"
proof -
  from assms(2) have p: "p = next_ptr env1"
    and env2: "env2 = env1\<lparr>heap := (heap env1)(next_ptr env1 \<mapsto> c), next_ptr := Suc (next_ptr env1)\<rparr>"
    by (auto simp: aws_new_def split: if_splits)
  have i2: "wf_env env2" unfolding env2 by (rule wf_alloc_ctx [OF assms(1)])
  have fresh: "externals env2 p = None" "p \<notin> set (destroyed env2)" "p < next_ptr env2"
    by (simp_all add: env2 p wf_fresh [OF assms(1)])
  show ?thesis
  proof (cases "create_external_fails F")
    case True
    have "wf_env (env2\<lparr>destroyed := p # destroyed env2\<rparr>)"
      by (rule wf_destroy [OF i2 fresh])
    then have "wf_env (aws_hmac_destroy (napi_throw_error env2 msg) p)"
      by (simp add: aws_hmac_destroy_def napi_throw_error_def wf_env_def)
    with True show ?thesis
      by (simp add: napi_create_external_def aws_byte_buf_clean_up_secure_def
          aws_byte_buf_clean_up_def)
  next
    case False
    have "wf_env (env2\<lparr>externals := (externals env2)(p \<mapsto> S_hmac_finalize)\<rparr>)"
      by (rule wf_register [OF i2 fresh(3) fresh(2)])
    with False show ?thesis by (simp add: napi_create_external_def)
  qed
qed

lemma wf_hmac_sha256_new:
  assumes "wf_env env"
  shows "wf_env (snd (hmac_sha256_new F env info))"
proof (cases "napi_get_cb_info F info 1")
  case None
  with assms show ?thesis by (simp add: hmac_sha256_new_def napi_throw_error_def)
next
  case (Some a)
  obtain num_args node_args where a: "a = (num_args, node_args)" by (cases a)
  show ?thesis
  proof (cases "aws_byte_buf_init_from_napi env (node_args ! 0)")
    case None
    with assms Some a show ?thesis
      by (simp add: hmac_sha256_new_def napi_throw_error_def napi_throw_type_error_def)
  next
    case buf: (Some r)
    obtain secret' env1 where r: "r = (secret', env1)" by (cases r)
    have i1: "wf_env env1" using assms buf unfolding r by (rule wf_buf_init)
    show ?thesis
    proof (cases "aws_sha256_hmac_new F env1 (aws_byte_cursor_from_buf env1 secret')")
      case None
      with assms Some a buf r i1 show ?thesis
        by (simp add: hmac_sha256_new_def napi_throw_error_def aws_byte_buf_clean_up_def)
    next
      case new: (Some q)
      obtain hmac env2 where q: "q = (hmac, env2)" by (cases q)
      from new q have "aws_new F env1 \<lparr>algorithm = SHA256_HMAC,
          digest_size = AWS_SHA256_HMAC_LEN, state = ACTIVE,
          secret = aws_byte_cursor_from_buf env1 secret', accumulator = []\<rparr> = Some (hmac, env2)"
        by (simp add: aws_sha256_hmac_new_def)
      from wf_hmac_new [OF i1 this] assms Some a buf r new q show ?thesis
        by (simp add: hmac_sha256_new_def napi_throw_error_def)
    qed
  qed
qed

lemma hash_update_frame:
  "destroyed (snd (hash_update F env info)) = destroyed env \<and>
   externals (snd (hash_update F env info)) = externals env \<and>
   next_ptr env \<le> next_ptr (snd (hash_update F env info))"
  by (simp add: hash_update_def platform_defs Let_def
      split: option.splits napi_value.splits sum.splits)

lemma hmac_update_frame:
  "destroyed (snd (hmac_update F env info)) = destroyed env \<and>
   externals (snd (hmac_update F env info)) = externals env \<and>
   next_ptr env \<le> next_ptr (snd (hmac_update F env info))"
  by (simp add: hmac_update_def platform_defs Let_def
      split: option.splits napi_value.splits sum.splits)

lemma hash_digest_emit_frame:
  "destroyed (snd (hash_digest_emit D F env p n)) = destroyed env \<and>
   externals (snd (hash_digest_emit D F env p n)) = externals env \<and>
   next_ptr (snd (hash_digest_emit D F env p n)) = next_ptr env"
  by (simp add: hash_digest_emit_def platform_defs Let_def split: sum.splits)

lemma hmac_digest_emit_frame:
  "destroyed (snd (hmac_digest_emit D F env p n)) = destroyed env \<and>
   externals (snd (hmac_digest_emit D F env p n)) = externals env \<and>
   next_ptr (snd (hmac_digest_emit D F env p n)) = next_ptr env"
  by (simp add: hmac_digest_emit_def platform_defs Let_def split: sum.splits)

lemma hash_digest_frame:
  "destroyed (snd (hash_digest D F env info)) = destroyed env \<and>
   externals (snd (hash_digest D F env info)) = externals env \<and>
   next_ptr (snd (hash_digest D F env info)) = next_ptr env"
  by (simp add: hash_digest_def hash_digest_emit_frame napi_throw_error_def
      napi_throw_type_error_def Let_def split: option.splits)

lemma hmac_digest_frame:
  "destroyed (snd (hmac_digest D F env info)) = destroyed env \<and>
   externals (snd (hmac_digest D F env info)) = externals env \<and>
   next_ptr (snd (hmac_digest D F env info)) = next_ptr env"
  by (simp add: hmac_digest_def hmac_digest_emit_frame napi_throw_error_def
      napi_throw_type_error_def Let_def split: option.splits)

lemma wf_hash_update: "wf_env env \<Longrightarrow> wf_env (snd (hash_update F env info))"
  by (erule wf_frame) (simp_all add: hash_update_frame)

lemma wf_hmac_update: "wf_env env \<Longrightarrow> wf_env (snd (hmac_update F env info))"
  by (erule wf_frame) (simp_all add: hmac_update_frame)

lemma wf_hash_digest: "wf_env env \<Longrightarrow> wf_env (snd (hash_digest D F env info))"
  by (erule wf_frame) (simp_all add: hash_digest_frame)

lemma wf_hmac_digest: "wf_env env \<Longrightarrow> wf_env (snd (hmac_digest D F env info))"
  by (erule wf_frame) (simp_all add: hmac_digest_frame)

lemma wf_reclaim: "wf_env env \<Longrightarrow> wf_env (reclaim env p)"
  by (auto simp: wf_env_def reclaim_def run_finalizer_def s_hash_finalize_def s_hmac_finalize_def
      aws_hash_destroy_def aws_hmac_destroy_def split: option.splits finalizer.splits)

lemma wf_step: "wf_env env \<Longrightarrow> wf_env (step D env x)"
  by (cases x) (simp_all add: wf_cleared wf_hash_md5_new wf_hash_sha256_new wf_hmac_sha256_new
      wf_hash_update wf_hmac_update wf_hash_digest wf_hmac_digest wf_reclaim)

lemma wf_run: "wf_env env \<Longrightarrow> wf_env (run D env ops)"
  unfolding run_def by (induction ops arbitrary: env) (simp_all add: wf_step)

lemma distinct_count_le: "distinct xs \<Longrightarrow> count_list xs p \<le> 1"
  by (induction xs) (auto simp: count_list_0_iff)

subsection \<open>Contexts without a handle\<close>

lemma unreachable_frame:
  assumes "unreachable env p" "destroyed env' = destroyed env" "externals env' = externals env"
    "next_ptr env \<le> next_ptr env'"
  shows "unreachable env' p"
  using assms by (auto simp: unreachable_def)

lemma unreachable_hash_md5_new:
  "unreachable env p \<Longrightarrow> unreachable (snd (hash_md5_new F env info)) p"
  by (auto simp: unreachable_def hash_md5_new_def platform_defs split: option.splits if_splits)

lemma unreachable_hash_sha256_new:
  "unreachable env p \<Longrightarrow> unreachable (snd (hash_sha256_new F env info)) p"
  by (auto simp: unreachable_def hash_sha256_new_def platform_defs split: option.splits if_splits)

lemma unreachable_hmac_sha256_new:
  "unreachable env p \<Longrightarrow> unreachable (snd (hmac_sha256_new F env info)) p"
  by (auto simp: unreachable_def hmac_sha256_new_def platform_defs Let_def
      split: option.splits if_splits napi_value.splits)

lemma unreachable_reclaim: "unreachable env p \<Longrightarrow> unreachable (reclaim env q) p"
  by (auto simp: unreachable_def reclaim_def run_finalizer_def s_hash_finalize_def
      s_hmac_finalize_def aws_hash_destroy_def aws_hmac_destroy_def
      split: option.splits finalizer.splits)

lemma unreachable_step: "unreachable env p \<Longrightarrow> unreachable (step D env x) p"
proof (cases x)
  case (Hash_update F info)
  assume "unreachable env p"
  then have "unreachable (cleared env) p" by (simp add: unreachable_def cleared_def)
  then show ?thesis unfolding Hash_update step.simps
    by (rule unreachable_frame) (simp_all add: hash_update_frame)
next
  case (Hash_digest F info)
  assume "unreachable env p"
  then have "unreachable (cleared env) p" by (simp add: unreachable_def cleared_def)
  then show ?thesis unfolding Hash_digest step.simps
    by (rule unreachable_frame) (simp_all add: hash_digest_frame)
next
  case (Hmac_update F info)
  assume "unreachable env p"
  then have "unreachable (cleared env) p" by (simp add: unreachable_def cleared_def)
  then show ?thesis unfolding Hmac_update step.simps
    by (rule unreachable_frame) (simp_all add: hmac_update_frame)
next
  case (Hmac_digest F info)
  assume "unreachable env p"
  then have "unreachable (cleared env) p" by (simp add: unreachable_def cleared_def)
  then show ?thesis unfolding Hmac_digest step.simps
    by (rule unreachable_frame) (simp_all add: hmac_digest_frame)
next
  case (Hash_md5_new F info)
  assume "unreachable env p"
  then have "unreachable (cleared env) p" by (simp add: unreachable_def cleared_def)
  then show ?thesis unfolding Hash_md5_new step.simps by (rule unreachable_hash_md5_new)
next
  case (Hash_sha256_new F info)
  assume "unreachable env p"
  then have "unreachable (cleared env) p" by (simp add: unreachable_def cleared_def)
  then show ?thesis unfolding Hash_sha256_new step.simps by (rule unreachable_hash_sha256_new)
next
  case (Hmac_sha256_new F info)
  assume "unreachable env p"
  then have "unreachable (cleared env) p" by (simp add: unreachable_def cleared_def)
  then show ?thesis unfolding Hmac_sha256_new step.simps by (rule unreachable_hmac_sha256_new)
next
  case (Reclaim q)
  assume "unreachable env p"
  then show ?thesis unfolding Reclaim step.simps by (rule unreachable_reclaim)
qed

lemma unreachable_run: "unreachable env p \<Longrightarrow> unreachable (run D env ops) p"
  unfolding run_def by (induction ops arbitrary: env) (simp_all add: unreachable_step)

text \<open>
  The context that \<open>hash_md5_new\<close> leaves behind when the registration of its
  handle fails is destroyed by no later call and no reclamation.
\<close>

lemma leaked_context_never_destroyed:
  "0 \<notin> set (destroyed (run D
      (snd (hash_md5_new (no_faults\<lparr>create_external_fails := True\<rparr>) init_env [])) ops))"
proof -
  have "unreachable (snd (hash_md5_new (no_faults\<lparr>create_external_fails := True\<rparr>) init_env [])) 0"
    by (simp add: unreachable_def hash_md5_new_def platform_defs)
  from unreachable_run [OF this] show ?thesis by (simp add: unreachable_def)
qed

subsection \<open>Calls out of state, and the outcome of incremental updates\<close>

text \<open>
  On a context that is not \<open>ACTIVE\<close>, for a call whose arguments marshal and for
  which the host provides the callback information and the output buffer: both
  updates and \<open>hash_digest\<close> raise the invalid-state error and leave the heap as
  it was; \<open>hmac_digest\<close> does so when the truncation request is provided.
\<close>

lemma out_of_state_calls_fail:
  assumes "\<not> cb_info_fails F" "napi_get_value_external env h = Some p" "heap env p = Some c"
    "state c \<noteq> ACTIVE" "carries v bs" "\<not> create_arraybuffer_fails F"
  shows
    "exception (snd (hash_update F env [h, v])) = Some (JsAwsError AWS_ERROR_INVALID_STATE) \<and>
     heap (snd (hash_update F env [h, v])) = heap env \<and>
     exception (snd (hmac_update F env [h, v])) = Some (JsAwsError AWS_ERROR_INVALID_STATE) \<and>
     heap (snd (hmac_update F env [h, v])) = heap env \<and>
     (aws_napi_is_null_or_undefined t \<or> napi_get_value_uint32 t \<noteq> None \<longrightarrow>
        hash_digest D F env [h, t] =
          (None, env\<lparr>exception := Some (JsAwsError AWS_ERROR_INVALID_STATE)\<rparr>)) \<and>
     (\<not> aws_napi_is_null_or_undefined t \<longrightarrow>
        hmac_digest D F env [h, t] =
          (None, env\<lparr>exception := Some (JsAwsError AWS_ERROR_INVALID_STATE)\<rparr>))"
proof -
  note u = hash_update_heap [OF assms(1,2,3,5)]
  note m = hmac_update_heap [OF assms(1,2,3,5)]
  have hd: "hash_digest D F env [h, t] =
      (None, env\<lparr>exception := Some (JsAwsError AWS_ERROR_INVALID_STATE)\<rparr>)"
    if "aws_napi_is_null_or_undefined t \<or> napi_get_value_uint32 t \<noteq> None"
    using that assms(1,2,3)
    by (auto simp: hash_digest_def get_cb_info_2 Let_def
        hash_digest_emit_out_of_state [OF assms(3,4,6)])
  have md: "hmac_digest D F env [h, t] =
      (None, env\<lparr>exception := Some (JsAwsError AWS_ERROR_INVALID_STATE)\<rparr>)"
    if "\<not> aws_napi_is_null_or_undefined t"
    by (simp add: hmac_digest_provided_branch [OF assms(1,2,3) that]
        hmac_digest_emit_out_of_state [OF assms(3,4,6)])
  from u(1,4) m(1,4) hd md assms(4) show ?thesis by simp
qed

text \<open>
  These calls on the context of \<open>finalized_env\<close>, whose first \<open>hash_digest\<close>
  succeeded.
\<close>

lemma out_of_state_calls_fail_on_finalized:
  "exception (snd (hash_update no_faults finalized_env [JExternal 0, JString [7]])) =
     Some (JsAwsError AWS_ERROR_INVALID_STATE) \<and>
   heap (snd (hash_update no_faults finalized_env [JExternal 0, JString [7]])) = heap finalized_env \<and>
   exception (snd (hmac_update no_faults finalized_env [JExternal 0, JString [7]])) =
     Some (JsAwsError AWS_ERROR_INVALID_STATE) \<and>
   heap (snd (hmac_update no_faults finalized_env [JExternal 0, JString [7]])) = heap finalized_env \<and>
   hash_digest toy_digest no_faults finalized_env [JExternal 0, JNumber 4] =
     (None, finalized_env\<lparr>exception := Some (JsAwsError AWS_ERROR_INVALID_STATE)\<rparr>) \<and>
   hmac_digest toy_digest no_faults finalized_env [JExternal 0, JNumber 4] =
     (None, finalized_env\<lparr>exception := Some (JsAwsError AWS_ERROR_INVALID_STATE)\<rparr>)"
proof -
  have "\<not> cb_info_fails no_faults" "\<not> create_arraybuffer_fails no_faults"
    by (simp_all add: no_faults_def)
  moreover have "napi_get_value_external finalized_env (JExternal 0) = Some 0"
    by (simp add: finalized_env_eq napi_get_value_external_def)
  moreover have "heap finalized_env 0 = Some \<lparr>algorithm = MD5, digest_size = 16,
      state = FINALIZED, secret = [], accumulator = []\<rparr>"
    by (simp add: finalized_env_eq)
  moreover have "carries (JString [7]) [7]"
    by (simp add: carries_def)
  ultimately show ?thesis
    using out_of_state_calls_fail [where F = no_faults and env = finalized_env
        and h = "JExternal 0" and p = 0 and v = "JString [7]" and bs = "[7]"
        and t = "JNumber 4" and D = toy_digest]
    by (simp add: aws_napi_is_null_or_undefined_def napi_get_value_uint32_def)
qed

text \<open>
  In any state of the context, two updates and one update of the concatenation are
  followed by the same outcome of the digest call, a digest or none.
\<close>

lemma incremental_updates_same_outcome:
  assumes "\<not> cb_info_fails F" "napi_get_value_external env h = Some p"
    "carries va a" "carries vb b" "carries vab (a @ b)"
  shows
    "fst (hash_digest D F' (snd (hash_update F (snd (hash_update F env [h, va])) [h, vb])) [h, t]) =
     fst (hash_digest D F' (snd (hash_update F env [h, vab])) [h, t]) \<and>
     fst (hmac_digest D F' (snd (hmac_update F (snd (hmac_update F env [h, va])) [h, vb])) [h, t]) =
     fst (hmac_digest D F' (snd (hmac_update F env [h, vab])) [h, t])"
proof -
  from ctx_of_external [OF assms(2)] obtain c where c: "heap env p = Some c" ..
  let ?e1 = "snd (hash_update F env [h, va])"
  let ?m1 = "snd (hmac_update F env [h, va])"
  note u1 = hash_update_heap [OF assms(1,2) c assms(3)]
  note m1 = hmac_update_heap [OF assms(1,2) c assms(3)]
  obtain c1 where c1: "heap ?e1 p = Some c1"
    and c1_eq: "c1 = (if state c = ACTIVE then c\<lparr>accumulator := accumulator c @ a\<rparr> else c)"
    using u1(1) c by simp
  obtain d1 where d1: "heap ?m1 p = Some d1"
    and d1_eq: "d1 = (if state c = ACTIVE then c\<lparr>accumulator := accumulator c @ a\<rparr> else c)"
    using m1(1) c by simp
  have x1: "napi_get_value_external ?e1 h = Some p"
    by (rule external_preserved [OF assms(2) u1(2)]) (simp add: c1)
  have y1: "napi_get_value_external ?m1 h = Some p"
    by (rule external_preserved [OF assms(2) m1(2)]) (simp add: d1)
  note u2 = hash_update_heap [OF assms(1) x1 c1 assms(4)]
  note m2 = hmac_update_heap [OF assms(1) y1 d1 assms(4)]
  note u3 = hash_update_heap [OF assms(1,2) c assms(5)]
  note m3 = hmac_update_heap [OF assms(1,2) c assms(5)]
  have hh: "heap (snd (hash_update F ?e1 [h, vb])) = heap (snd (hash_update F env [h, vab]))"
    by (simp add: u2(1) u3(1) u1(1) c1_eq)
  have he: "externals (snd (hash_update F ?e1 [h, vb])) =
      externals (snd (hash_update F env [h, vab]))"
    by (simp add: u2(2) u3(2) u1(2))
  have mh: "heap (snd (hmac_update F ?m1 [h, vb])) = heap (snd (hmac_update F env [h, vab]))"
    by (simp add: m2(1) m3(1) m1(1) d1_eq)
  have me: "externals (snd (hmac_update F ?m1 [h, vb])) =
      externals (snd (hmac_update F env [h, vab]))"
    by (simp add: m2(2) m3(2) m1(2))
  show ?thesis
    using hash_digest_fst_cong [OF hh he] hmac_digest_fst_cong [OF mh me] by blast
qed

section \<open>The claims\<close>

text \<open>
  C1. For every call to \<open>hmac_sha256_new\<close> with a secret, on every exit path the
  transient buffer that carried the secret has every byte overwritten before the
  call returns, so that no copy of the secret remains in it.

  The code at the call \<open>hmac_sha256_new([1, 2, 3])\<close>: when the call succeeds it
  returns the handle while the buffer (address 0) still holds the secret and was
  not even released; when the construction of the HMAC fails the buffer is released
  with its bytes intact.
\<close>

theorem hmac_sha256_new_leaves_secret_in_buffer:
  "fst (hmac_sha256_new no_faults init_env [JString [1, 2, 3]]) = Some (JExternal 1) \<and>
   memory (snd (hmac_sha256_new no_faults init_env [JString [1, 2, 3]])) 0 = [1, 2, 3] \<and>
   released (snd (hmac_sha256_new no_faults init_env [JString [1, 2, 3]])) = [] \<and>
   fst (hmac_sha256_new (no_faults\<lparr>alloc_fails := True\<rparr>) init_env [JString [1, 2, 3]]) = None \<and>
   memory (snd (hmac_sha256_new (no_faults\<lparr>alloc_fails := True\<rparr>) init_env [JString [1, 2, 3]])) 0
     = [1, 2, 3] \<and>
   released (snd (hmac_sha256_new (no_faults\<lparr>alloc_fails := True\<rparr>) init_env [JString [1, 2, 3]]))
     = [0]"
  by (simp add: hmac_sha256_new_def platform_defs)

text \<open>
  C2. For both \<open>hash_digest\<close> and \<open>hmac_digest\<close>, whenever \<open>truncate_to\<close> is
  absent (null or undefined) the call succeeds on an active context and emits
  exactly \<open>digest_size\<close> bytes.

  The code at the call \<open>hmac_digest(handle, undefined)\<close> on a fresh, active
  HMAC context: no digest is returned, a type error is pending and the context is
  untouched.
\<close>

theorem hmac_digest_absent_truncate_to_throws:
  "hmac_digest toy_digest no_faults hmac_env [JExternal 1, JUndefined] =
     (None, hmac_env\<lparr>exception := Some (JsTypeError
        ''truncate_to argument must be undefined or a positive number'')\<rparr>) \<and>
   hmac_digest toy_digest no_faults hmac_env [JExternal 1, JNull] =
     (None, hmac_env\<lparr>exception := Some (JsTypeError
        ''truncate_to argument must be undefined or a positive number'')\<rparr>) \<and>
   map_option state (heap hmac_env 1) = Some ACTIVE"
  by (simp add: hmac_env_eq hmac_digest_def platform_defs)

text \<open>
  C3. For both engines and every provided \<open>truncate_to = k\<close>: for \<open>k \<le> n\<close>
  the digest operation returns the first \<open>k\<close> bytes of the natural digest, for
  \<open>k > n\<close> the full \<open>n\<close> bytes.

  The code at the call \<open>hmac_digest(handle, 16)\<close> on a fresh, active HMAC
  context (\<open>n = 32\<close>): the whole natural digest of 32 bytes is returned, not its
  first 16 bytes.
\<close>

theorem hmac_digest_ignores_truncate_to:
  "fst (hmac_digest toy_digest no_faults hmac_env [JExternal 1, JNumber 16]) =
     Some (JDataView (natural_digest toy_digest (the (heap hmac_env 1)))) \<and>
   length (natural_digest toy_digest (the (heap hmac_env 1))) = 32 \<and>
   fst (hmac_digest toy_digest no_faults hmac_env [JExternal 1, JNumber 16]) \<noteq>
     Some (JDataView (take 16 (natural_digest toy_digest (the (heap hmac_env 1)))))"
  by (simp add: hmac_env_eq hmac_digest_def hmac_digest_emit_def platform_defs toy_digest_def)

text \<open>
  C4. For every create operation, if the underlying context cannot be allocated or
  initialised the call raises an error to the caller rather than returning silently.

  The code when the allocation fails: \<open>hash_md5_new\<close> and \<open>hash_sha256_new\<close>
  return \<open>NULL\<close> and leave the environment as it was, with no exception pending;
  \<open>hmac_sha256_new\<close> returns \<open>NULL\<close> with no exception pending.
\<close>

theorem create_allocation_failure_is_silent:
  "hash_md5_new (no_faults\<lparr>alloc_fails := True\<rparr>) init_env [] = (None, init_env) \<and>
   hash_sha256_new (no_faults\<lparr>alloc_fails := True\<rparr>) init_env [] = (None, init_env) \<and>
   exception init_env = None \<and>
   fst (hmac_sha256_new (no_faults\<lparr>alloc_fails := True\<rparr>) init_env [JString [1, 2, 3]]) = None \<and>
   exception (snd (hmac_sha256_new (no_faults\<lparr>alloc_fails := True\<rparr>) init_env
      [JString [1, 2, 3]])) = None"
  by (simp add: hash_md5_new_def hash_sha256_new_def hmac_sha256_new_def platform_defs)

text \<open>
  C5. For every create operation, on every failure path the operation rolls back
  completely before the error propagates: no allocated accumulator remains and, for
  the keyed variant, no un-erased secret buffer.

  The code when the registration of the handle fails in \<open>hash_md5_new\<close> and
  \<open>hash_sha256_new\<close>: the error is raised, and the context stays allocated and
  active, was never destroyed and has no finalizer registered that could destroy it.
\<close>

theorem hash_new_registration_failure_leaks:
  "heap (snd (hash_md5_new (no_faults\<lparr>create_external_fails := True\<rparr>) init_env [])) 0 =
     Some \<lparr>algorithm = MD5, digest_size = 16, state = ACTIVE, secret = [], accumulator = []\<rparr> \<and>
   destroyed (snd (hash_md5_new (no_faults\<lparr>create_external_fails := True\<rparr>) init_env [])) = [] \<and>
   externals (snd (hash_md5_new (no_faults\<lparr>create_external_fails := True\<rparr>) init_env [])) 0 = None \<and>
   exception (snd (hash_md5_new (no_faults\<lparr>create_external_fails := True\<rparr>) init_env [])) =
     Some (JsError ''Failed create n-api external'') \<and>
   heap (snd (hash_sha256_new (no_faults\<lparr>create_external_fails := True\<rparr>) init_env [])) 0 =
     Some \<lparr>algorithm = SHA256, digest_size = 32, state = ACTIVE, secret = [], accumulator = []\<rparr> \<and>
   destroyed (snd (hash_sha256_new (no_faults\<lparr>create_external_fails := True\<rparr>) init_env [])) = []"
  by (simp add: hash_md5_new_def hash_sha256_new_def platform_defs)

text \<open>
  C6. For every context not in the \<open>ACTIVE\<close> state, \<open>update\<close> fails with an
  invalid-state error and leaves the context and its accumulator unchanged; a
  second digest call on a finalized context fails with an invalid-state error
  rather than producing digest bytes.

  The code at a second \<open>hmac_digest(handle, undefined)\<close> (or \<open>null\<close>) on an
  HMAC context whose first \<open>hmac_digest(handle, 32)\<close> returned the digest: the
  call raises the type error of lines 271 to 276 before it reaches
  \<open>aws_hmac_finalize\<close>, not the invalid-state error.
\<close>

theorem second_hmac_digest_absent_throws_type_error:
  "fst (hmac_digest toy_digest no_faults hmac_env [JExternal 1, JNumber 32]) =
     Some (JDataView (toy_digest SHA256_HMAC [1, 2, 3] [])) \<and>
   map_option state (heap hmac_finalized_env 1) = Some FINALIZED \<and>
   hmac_digest toy_digest no_faults hmac_finalized_env [JExternal 1, JUndefined] =
     (None, hmac_finalized_env\<lparr>exception := Some (JsTypeError
        ''truncate_to argument must be undefined or a positive number'')\<rparr>) \<and>
   hmac_digest toy_digest no_faults hmac_finalized_env [JExternal 1, JNull] =
     (None, hmac_finalized_env\<lparr>exception := Some (JsTypeError
        ''truncate_to argument must be undefined or a positive number'')\<rparr>) \<and>
   exception (snd (hmac_digest toy_digest no_faults hmac_finalized_env [JExternal 1, JUndefined]))
     \<noteq> Some (JsAwsError AWS_ERROR_INVALID_STATE)"
  by (simp add: hmac_finalized_env_eq hmac_env_eq hmac_digest_def hmac_digest_emit_def
      platform_defs toy_digest_def)



text \<open>
  C8. For every active context, the digest call with \<open>truncate_to = 0\<close> is legal
  and returns an empty digest.

  The code at the call \<open>hmac_digest(handle, 0)\<close> on a fresh, active HMAC
  context: the full digest of 32 bytes is returned.
\<close>

theorem hmac_digest_truncate_to_zero_emits_full_digest:
  "fst (hmac_digest toy_digest no_faults hmac_env [JExternal 1, JNumber 0]) =
     Some (JDataView (toy_digest SHA256_HMAC [1, 2, 3] [])) \<and>
   length (toy_digest SHA256_HMAC [1, 2, 3] []) = 32 \<and>
   fst (hmac_digest toy_digest no_faults hmac_env [JExternal 1, JNumber 0]) \<noteq>
     Some (JDataView [])"
  by (simp add: hmac_env_eq hmac_digest_def hmac_digest_emit_def platform_defs toy_digest_def)

text \<open>
  C9. Every context is destroyed at most once over its lifetime: along any sequence
  of operations the destroy routine runs on a given context exactly once and never
  twice, whether triggered by the reclamation callback or by a clean-up path in
  create.

  "Exactly once" fails by design: nothing but the collector destroys a context
  that has a handle. After a create, an update and a digest the context exists and
  the destroy routine has not run on it.
\<close>

theorem destroy_exactly_once_counterexample:
  "count_list (destroyed (run toy_digest init_env
      [Hash_md5_new no_faults [], Hash_update no_faults [JExternal 0, JString [1, 2]],
       Hash_digest no_faults [JExternal 0, JUndefined]])) 0 = 0 \<and>
   heap (run toy_digest init_env
      [Hash_md5_new no_faults [], Hash_update no_faults [JExternal 0, JString [1, 2]],
       Hash_digest no_faults [JExternal 0, JUndefined]]) 0 =
     Some \<lparr>algorithm = MD5, digest_size = 16, state = FINALIZED, secret = [],
            accumulator = [1, 2]\<rparr>"
  by (simp add: run_def cleared_def hash_md5_new_def hash_update_def hash_digest_def
      hash_digest_emit_def platform_defs)

text \<open>
  C9 as amended: along any sequence of calls and reclamations, with any faults of
  the platform, the destroy routine runs on a given context at most once, whether
  triggered by the reclamation callback or by the clean-up path of
  \<open>hmac_sha256_new\<close>.
\<close>

theorem destroy_at_most_once:
  "count_list (destroyed (run D init_env ops)) p \<le> 1"
proof -
  have "wf_env (run D init_env ops)"
    by (rule wf_run [OF wf_init])
  then have "distinct (destroyed (run D init_env ops))"
    by (simp add: wf_env_def)
  then show ?thesis by (rule distinct_count_le)
qed

text \<open>
  A run in which both triggers fire: the clean-up path of a failed
  \<open>hmac_sha256_new\<close> destroys context 1, the collector reclaims context 2, and
  reclaiming again destroys nothing.
\<close>

theorem destroy_at_most_once_witness:
  "count_list (destroyed (run toy_digest init_env
      [Hmac_sha256_new (no_faults\<lparr>create_external_fails := True\<rparr>) [JString [1, 2, 3]],
       Hash_md5_new no_faults [], Reclaim 2, Reclaim 2, Reclaim 1])) 2 \<le> 1 \<and>
   destroyed (run toy_digest init_env
      [Hmac_sha256_new (no_faults\<lparr>create_external_fails := True\<rparr>) [JString [1, 2, 3]],
       Hash_md5_new no_faults [], Reclaim 2, Reclaim 2, Reclaim 1]) = [2, 1]"
proof (rule conjI)
  show "count_list (destroyed (run toy_digest init_env
      [Hmac_sha256_new (no_faults\<lparr>create_external_fails := True\<rparr>) [JString [1, 2, 3]],
       Hash_md5_new no_faults [], Reclaim 2, Reclaim 2, Reclaim 1])) 2 \<le> 1"
    by (rule destroy_at_most_once)
  show "destroyed (run toy_digest init_env
      [Hmac_sha256_new (no_faults\<lparr>create_external_fails := True\<rparr>) [JString [1, 2, 3]],
       Hash_md5_new no_faults [], Reclaim 2, Reclaim 2, Reclaim 1]) = [2, 1]"
    by (simp add: run_def cleared_def hmac_sha256_new_def hash_md5_new_def reclaim_def
        run_finalizer_def s_hash_finalize_def platform_defs numeral_2_eq_2)
qed

text \<open>
  C10. For every call to \<open>hmac_digest\<close> in which \<open>truncate_to\<close> is a number, the
  truncation branch is skipped entirely and the emitted digest always has the full
  \<open>digest_size\<close> bytes, whatever the requested value; the clamping comparison is
  only reached when the argument is null or undefined.

  With a number, and with any argument that is neither null nor undefined, the
  call continues at line 284 with \<open>digest_size\<close> as read from the context;
  whatever it returns is a view of \<open>digest_size\<close> bytes; on an active context
  it does return one, the natural digest itself when the algorithm produces that
  many bytes.
\<close>

theorem hmac_digest_provided_skips_truncation:
  assumes "\<not> cb_info_fails F" "napi_get_value_external env h = Some p" "heap env p = Some c"
  shows
    "hmac_digest D F env [h, JNumber k] = hmac_digest_emit D F env p (digest_size c) \<and>
     (\<forall>v. \<not> aws_napi_is_null_or_undefined v \<longrightarrow>
          hmac_digest D F env [h, v] = hmac_digest_emit D F env p (digest_size c)) \<and>
     (\<forall>d. fst (hmac_digest D F env [h, JNumber k]) = Some d \<longrightarrow>
          (\<exists>bs. d = JDataView bs \<and> length bs = digest_size c)) \<and>
     (state c = ACTIVE \<and> \<not> create_arraybuffer_fails F \<and> \<not> create_dataview_fails F \<longrightarrow>
        (\<exists>bs. fst (hmac_digest D F env [h, JNumber k]) = Some (JDataView bs) \<and>
              length bs = digest_size c \<and>
              (length (natural_digest D c) = digest_size c \<longrightarrow> bs = natural_digest D c)))"
proof -
  have skip: "\<not> aws_napi_is_null_or_undefined v \<Longrightarrow>
      hmac_digest D F env [h, v] = hmac_digest_emit D F env p (digest_size c)" for v
    by (rule hmac_digest_provided_branch [OF assms])
  have num: "hmac_digest D F env [h, JNumber k] = hmac_digest_emit D F env p (digest_size c)"
    by (rule skip) (simp add: aws_napi_is_null_or_undefined_def)
  have full: "\<exists>bs. fst (hmac_digest D F env [h, JNumber k]) = Some (JDataView bs) \<and>
              length bs = digest_size c \<and>
              (length (natural_digest D c) = digest_size c \<longrightarrow> bs = natural_digest D c)"
    if "state c = ACTIVE" "\<not> create_arraybuffer_fails F" "\<not> create_dataview_fails F"
    unfolding num hmac_digest_emit_active [OF assms(3) that]
    by (simp add: out_buf_contents_def)
  have size: "\<exists>bs. d = JDataView bs \<and> length bs = digest_size c"
    if "fst (hmac_digest D F env [h, JNumber k]) = Some d" for d
    using that unfolding num by (rule hmac_digest_emit_size)
  from skip num size full show ?thesis by blast
qed

text \<open>
  C10 on a fresh, active HMAC context: a request for 16 bytes, and a string in
  place of the number, both go on with the 32 bytes of the context, and the request
  for 16 bytes returns the whole natural digest.
\<close>

theorem hmac_digest_provided_skips_truncation_witness:
  "hmac_digest toy_digest no_faults hmac_env [JExternal 1, JNumber 16] =
     hmac_digest_emit toy_digest no_faults hmac_env 1 32 \<and>
   hmac_digest toy_digest no_faults hmac_env [JExternal 1, JString []] =
     hmac_digest_emit toy_digest no_faults hmac_env 1 32 \<and>
   fst (hmac_digest toy_digest no_faults hmac_env [JExternal 1, JNumber 16]) =
     Some (JDataView (toy_digest SHA256_HMAC [1, 2, 3] [])) \<and>
   length (toy_digest SHA256_HMAC [1, 2, 3] []) = 32"
proof -
  let ?c = "\<lparr>algorithm = SHA256_HMAC, digest_size = 32, state = ACTIVE,
      secret = [1, 2, 3], accumulator = []\<rparr>"
  have f: "\<not> cb_info_fails no_faults" "\<not> create_arraybuffer_fails no_faults"
    "\<not> create_dataview_fails no_faults"
    by (simp_all add: no_faults_def)
  have e: "napi_get_value_external hmac_env (JExternal 1) = Some 1"
    by (simp add: hmac_env_eq napi_get_value_external_def)
  have c: "heap hmac_env 1 = Some ?c"
    by (simp add: hmac_env_eq)
  have n: "length (natural_digest toy_digest ?c) = 32" "natural_digest toy_digest ?c =
      toy_digest SHA256_HMAC [1, 2, 3] []"
    by (simp_all add: natural_digest_def toy_digest_def)
  have s: "\<not> aws_napi_is_null_or_undefined (JString [])"
    by (simp add: aws_napi_is_null_or_undefined_def)
  from hmac_digest_provided_skips_truncation [OF f(1) e c, of toy_digest 16] f(2,3) n s
  show ?thesis by auto
qed

end
